theory Spec2Isabelle
  imports Main
begin

section \<open>The optional container of tao/result/result.hpp\<close>

text \<open>
  The held type \<open>T\<close> is the type variable \<open>'a\<close>. \<open>T\<close> is taken to be a regular type:
  copy construction and copy assignment give the target the source's value and leave the
  source as it is; move construction and move assignment give the target the source's
  value and leave the source in \<open>T\<close>'s moved-from state. The operations that forward
  their right-hand side take a function \<open>after :: 'a \<Rightarrow> 'a\<close> that says what a value is
  once it has been the source of one construction or assignment: the identity for a
  copy (\<open>const optional &\<close>), \<open>T\<close>'s moved-from state for a move (\<open>optional &&\<close>).
\<close>

subsection \<open>Errors\<close>

text \<open>
  \<open>bad_optional_access\<close> is the exception class of the library.
  \<open>undefined_behaviour\<close> is not raised by any statement of the source: it is the
  model's answer where the source reads, assigns to or destroys \<open>value_\<close> while no
  \<open>T\<close> object is alive in the union, which C++ leaves undefined.
\<close>

datatype error = bad_optional_access | undefined_behaviour

definition seq :: "error + 'x \<Rightarrow> ('x \<Rightarrow> error + 'y) \<Rightarrow> error + 'y" where
  "seq m k = (case m of Inl e \<Rightarrow> Inl e | Inr x \<Rightarrow> k x)"

subsection \<open>\<open>detail::optional_storage_base\<close>\<close>

text \<open>
  The anonymous union \<open>{ dummy dummy_; T value_; }\<close>: either the \<open>dummy_\<close> member stands
  (no \<open>T\<close> object is alive in the storage), or \<open>value_\<close> is alive and has a value.
  The record field \<open>storage\<close> is that union and \<open>has_value_flag\<close> is the member
  \<open>has_value_\<close> (a name cannot end with an underscore here).
\<close>

datatype 'a storage = Dummy | Value 'a

record 'a optional =
  storage :: "'a storage"
  has_value_flag :: bool

text \<open>\<open>optional_storage_base()\<close>: \<open>dummy_()\<close>, \<open>has_value_(false)\<close>.\<close>

definition optional_default :: "'a optional" where
  "optional_default = \<lparr>storage = Dummy, has_value_flag = False\<rparr>"

text \<open>\<open>optional_storage_base(in_place_t, U&&... u)\<close>: \<open>value_(u...)\<close>, \<open>has_value_(true)\<close>.\<close>

definition optional_in_place :: "'a \<Rightarrow> 'a optional" where
  "optional_in_place u = \<lparr>storage = Value u, has_value_flag = True\<rparr>"

text \<open>
  The invariant of the data model: the storage is populated if and only if the
  discriminant is true.
\<close>

definition populated :: "'a optional \<Rightarrow> bool" where
  "populated this = (case storage this of Dummy \<Rightarrow> False | Value v \<Rightarrow> True)"

definition invariant :: "'a optional \<Rightarrow> bool" where
  "invariant this = (populated this = has_value_flag this)"

subsection \<open>\<open>detail::optional_operations_base\<close>\<close>

definition has_value :: "'a optional \<Rightarrow> bool" where
  "has_value this = has_value_flag this"

text \<open>\<open>get()\<close> returns \<open>this->value_\<close>; the model reads the value through the reference.\<close>

definition get :: "'a optional \<Rightarrow> error + 'a" where
  "get this = (case storage this of Value v \<Rightarrow> Inr v | Dummy \<Rightarrow> Inl undefined_behaviour)"

text \<open>
  \<open>std::forward<Opt>(rhs).get()\<close> used as the source of one construction or assignment
  of a \<open>T\<close>: the value read, and \<open>rhs\<close> afterwards.
\<close>

definition forward_get :: "('a \<Rightarrow> 'a) \<Rightarrow> 'a optional \<Rightarrow> error + ('a \<times> 'a optional)" where
  "forward_get after rhs =
     (case storage rhs of
        Value v \<Rightarrow> Inr (v, rhs\<lparr>storage := Value (after v)\<rparr>)
      | Dummy \<Rightarrow> Inl undefined_behaviour)"

text \<open>\<open>this->value_.~T()\<close>: ends the lifetime of the stored object.\<close>

definition destroy :: "'a optional \<Rightarrow> error + 'a optional" where
  "destroy this =
     (case storage this of
        Value v \<Rightarrow> Inr (this\<lparr>storage := Dummy\<rparr>)
      | Dummy \<Rightarrow> Inl undefined_behaviour)"

text \<open>\<open>this->value_ = u\<close>: \<open>T\<close>'s assignment operator on the stored object.\<close>

definition assign_through :: "'a optional \<Rightarrow> 'a \<Rightarrow> error + 'a optional" where
  "assign_through this u =
     (case storage this of
        Value v \<Rightarrow> Inr (this\<lparr>storage := Value u\<rparr>)
      | Dummy \<Rightarrow> Inl undefined_behaviour)"

text \<open>\<open>hard_reset()\<close>: \<open>get().~T(); has_value_ = false\<close>.\<close>

definition hard_reset :: "'a optional \<Rightarrow> error + 'a optional" where
  "hard_reset this = seq (destroy this) (\<lambda>this. Inr (this\<lparr>has_value_flag := False\<rparr>))"

text \<open>
  \<open>construct(args...)\<close>: placement new of a \<open>T\<close> at the address of \<open>value_\<close>, then
  \<open>has_value_ = true\<close>. No destructor runs for an object that was alive there.
\<close>

definition construct :: "'a \<Rightarrow> 'a optional \<Rightarrow> 'a optional" where
  "construct u this = this\<lparr>storage := Value u, has_value_flag := True\<rparr>"

text \<open>
  \<open>assign(Opt &&rhs)\<close>, lines 187 to 201. The second \<open>if\<close> is not the \<open>else\<close> branch of
  the first: it runs after it, on the state the first one left.
\<close>

definition assign ::
  "('a \<Rightarrow> 'a) \<Rightarrow> 'a optional \<Rightarrow> 'a optional \<Rightarrow> error + ('a optional \<times> 'a optional)" where
  "assign after this rhs =
     seq (if has_value this then
            (if has_value rhs then
               seq (forward_get after rhs) (\<lambda>(v, rhs).
               seq (assign_through this v) (\<lambda>this. Inr (this, rhs)))
             else
               seq (destroy this) (\<lambda>this. Inr (this\<lparr>has_value_flag := False\<rparr>, rhs)))
          else Inr (this, rhs))
       (\<lambda>(this, rhs).
          if has_value rhs then
            seq (forward_get after rhs) (\<lambda>(v, rhs). Inr (construct v this, rhs))
          else Inr (this, rhs))"

subsection \<open>Copy and move construction\<close>

text \<open>
  \<open>optional_copy_base(const optional_copy_base &rhs)\<close>, for a \<open>T\<close> that is not
  trivially copy constructible: the base is default-initialised, then
  \<open>if (rhs.has_value()) this->construct(rhs.get()); else this->has_value_ = false;\<close>
\<close>

definition optional_copy_base :: "'a optional \<Rightarrow> error + 'a optional" where
  "optional_copy_base rhs =
     (if has_value rhs then seq (get rhs) (\<lambda>v. Inr (construct v optional_default))
      else Inr (optional_default\<lparr>has_value_flag := False\<rparr>))"

text \<open>
  \<open>optional_move_base(optional_move_base &&rhs)\<close>, for a \<open>T\<close> that is not trivially
  move constructible: \<open>this->construct(std::move(rhs.get()))\<close> when \<open>rhs\<close> has a value.
  The result is the new object and \<open>rhs\<close> afterwards.
\<close>

definition optional_move_base ::
  "('a \<Rightarrow> 'a) \<Rightarrow> 'a optional \<Rightarrow> error + ('a optional \<times> 'a optional)" where
  "optional_move_base moved rhs =
     (if has_value rhs then
        seq (forward_get moved rhs) (\<lambda>(v, rhs). Inr (construct v optional_default, rhs))
      else Inr (optional_default\<lparr>has_value_flag := False\<rparr>, rhs))"

text \<open>
  \<open>optional(const optional &rhs) = default\<close> and \<open>optional(optional &&rhs) = default\<close>.
  For a trivially copy (move) constructible \<open>T\<close> the base has the implicit constructor,
  which copies the union and the flag member by member; otherwise it is the
  constructor above.
\<close>

definition optional_copy :: "bool \<Rightarrow> 'a optional \<Rightarrow> error + 'a optional" where
  "optional_copy trivially_copy_constructible rhs =
     (if trivially_copy_constructible then Inr rhs else optional_copy_base rhs)"

definition optional_move ::
  "bool \<Rightarrow> ('a \<Rightarrow> 'a) \<Rightarrow> 'a optional \<Rightarrow> error + ('a optional \<times> 'a optional)" where
  "optional_move trivially_move_constructible moved rhs =
     (if trivially_move_constructible then Inr (rhs, rhs) else optional_move_base moved rhs)"

subsection \<open>Constructors of \<open>optional\<close>\<close>

text \<open>\<open>optional(nullopt_t)\<close> has an empty body over the default-initialised base.\<close>

definition optional_nullopt :: "'a optional" where
  "optional_nullopt = optional_default"

text \<open>\<open>optional(U&& u) : base(in_place, std::forward<U>(u))\<close>.\<close>

definition optional_value :: "'a \<Rightarrow> 'a optional" where
  "optional_value u = optional_in_place u"

text \<open>
  The converting constructors \<open>optional(const optional<U> &rhs)\<close> and
  \<open>optional(optional<U> &&rhs)\<close>, lines 964 to 996, with \<open>conv\<close> the conversion from
  \<open>U\<close> to \<open>T\<close>: the body is \<open>this->construct(*rhs)\<close>, or
  \<open>this->construct(std::move(*rhs))\<close>, with no test of \<open>rhs.has_value()\<close>.
\<close>

definition optional_from_other ::
  "('u \<Rightarrow> 'a) \<Rightarrow> ('u \<Rightarrow> 'u) \<Rightarrow> 'u optional \<Rightarrow> error + ('a optional \<times> 'u optional)" where
  "optional_from_other conv after rhs =
     seq (forward_get after rhs) (\<lambda>(u, rhs). Inr (construct (conv u) optional_default, rhs))"

subsection \<open>Observers\<close>

text \<open>\<open>operator*\<close> returns \<open>this->value_\<close> without a check.\<close>

definition deref :: "'a optional \<Rightarrow> error + 'a" where
  "deref this = get this"

text \<open>
  \<open>value()\<close>: \<open>if (has_value()) return this->value_; throw bad_optional_access();\<close>
  The model reads the value through the returned reference.
\<close>

definition "value" :: "'a optional \<Rightarrow> error + 'a" where
  "value this = (if has_value this then get this else Inl bad_optional_access)"

text \<open>\<open>value_or(u)\<close>: \<open>has_value() ? **this : static_cast<T>(std::forward<U>(u))\<close>.\<close>

definition value_or :: "'a optional \<Rightarrow> 'a \<Rightarrow> error + 'a" where
  "value_or this u = (if has_value this then deref this else Inr u)"

subsection \<open>Modifiers\<close>

text \<open>\<open>reset()\<close>: \<open>if (has_value()) { this->value_.~T(); this->has_value_ = false; }\<close>\<close>

definition reset :: "'a optional \<Rightarrow> error + 'a optional" where
  "reset this =
     (if has_value this then seq (destroy this) (\<lambda>this. Inr (this\<lparr>has_value_flag := False\<rparr>))
      else Inr this)"

text \<open>\<open>operator=(nullopt_t)\<close> has the body of \<open>reset\<close>.\<close>

definition assign_nullopt :: "'a optional \<Rightarrow> error + 'a optional" where
  "assign_nullopt this =
     (if has_value this then seq (destroy this) (\<lambda>this. Inr (this\<lparr>has_value_flag := False\<rparr>))
      else Inr this)"

text \<open>
  \<open>operator=(U&& u)\<close>: \<open>if (has_value()) this->value_ = u; else this->construct(u);\<close>
\<close>

definition assign_forward :: "'a optional \<Rightarrow> 'a \<Rightarrow> error + 'a optional" where
  "assign_forward this u =
     (if has_value this then assign_through this u else Inr (construct u this))"

text \<open>
  \<open>optional &operator=(const optional &rhs) = default\<close> and the move assignment call
  the base's operator, which is \<open>this->assign(rhs)\<close> in \<open>optional_copy_assign_base\<close>
  and \<open>this->assign(std::move(rhs))\<close> in \<open>optional_move_assign_base\<close>, for a \<open>T\<close>
  that is not trivially assignable.
\<close>

definition copy_assign :: "'a optional \<Rightarrow> 'a optional \<Rightarrow> error + ('a optional \<times> 'a optional)" where
  "copy_assign this rhs = assign (\<lambda>v. v) this rhs"

definition move_assign ::
  "('a \<Rightarrow> 'a) \<Rightarrow> 'a optional \<Rightarrow> 'a optional \<Rightarrow> error + ('a optional \<times> 'a optional)" where
  "move_assign moved this rhs = assign moved this rhs"

text \<open>
  The converting assignments \<open>operator=(const optional<U> &rhs)\<close> and
  \<open>operator=(optional<U> &&rhs)\<close>, lines 1040 to 1083, with \<open>conv\<close> the conversion
  from \<open>U\<close> to \<open>T\<close>. As in \<open>assign\<close>, the second \<open>if\<close> follows the first.
\<close>

definition assign_from_other ::
  "('u \<Rightarrow> 'a) \<Rightarrow> ('u \<Rightarrow> 'u) \<Rightarrow> 'a optional \<Rightarrow> 'u optional \<Rightarrow>
     error + ('a optional \<times> 'u optional)" where
  "assign_from_other conv after this rhs =
     seq (if has_value this then
            (if has_value rhs then
               seq (forward_get after rhs) (\<lambda>(u, rhs).
               seq (assign_through this (conv u)) (\<lambda>this. Inr (this, rhs)))
             else
               seq (hard_reset this) (\<lambda>this. Inr (this, rhs)))
          else Inr (this, rhs))
       (\<lambda>(this, rhs).
          if has_value rhs then
            seq (forward_get after rhs) (\<lambda>(u, rhs). Inr (construct (conv u) this, rhs))
          else Inr (this, rhs))"

text \<open>
  \<open>emplace(args...)\<close>: \<open>*this = nullopt; this->construct(args...); return value();\<close>
  The result is the value behind the returned reference, and the optional.
\<close>

definition emplace :: "'a \<Rightarrow> 'a optional \<Rightarrow> error + ('a \<times> 'a optional)" where
  "emplace u this =
     seq (assign_nullopt this) (\<lambda>this.
     seq (Inr (construct u this)) (\<lambda>this.
     seq (value this) (\<lambda>v. Inr (v, this))))"

text \<open>
  \<open>swap(optional &rhs)\<close>, lines 1115 to 1130. With both values present it is
  \<open>std::swap\<close> on the two values. With one value present it is a placement new of the
  value into the other's storage, followed by the destructor of the source value; the
  source has no statement on either \<open>has_value_\<close> member.
\<close>

definition swap :: "'a optional \<Rightarrow> 'a optional \<Rightarrow> error + ('a optional \<times> 'a optional)" where
  "swap this rhs =
     (if has_value this then
        (if has_value rhs then
           seq (get this) (\<lambda>x.
           seq (get rhs) (\<lambda>y.
           Inr (this\<lparr>storage := Value y\<rparr>, rhs\<lparr>storage := Value x\<rparr>)))
         else
           seq (get this) (\<lambda>x.
           seq (Inr (rhs\<lparr>storage := Value x\<rparr>)) (\<lambda>rhs.
           seq (destroy this) (\<lambda>this. Inr (this, rhs)))))
      else if has_value rhs then
        seq (get rhs) (\<lambda>y.
        seq (Inr (this\<lparr>storage := Value y\<rparr>)) (\<lambda>this.
        seq (destroy rhs) (\<lambda>rhs. Inr (this, rhs))))
      else Inr (this, rhs))"

text \<open>
  \<open>take() &\<close>: \<open>optional ret = *this; reset(); return ret;\<close> and \<open>take() &&\<close>:
  \<open>optional ret = std::move(*this); reset(); return ret;\<close>
  The result is \<open>ret\<close> and the optional afterwards.
\<close>

definition take :: "bool \<Rightarrow> 'a optional \<Rightarrow> error + ('a optional \<times> 'a optional)" where
  "take trivially_copy_constructible this =
     seq (optional_copy trivially_copy_constructible this) (\<lambda>ret.
     seq (reset this) (\<lambda>this. Inr (ret, this)))"

definition take_rvalue ::
  "bool \<Rightarrow> ('a \<Rightarrow> 'a) \<Rightarrow> 'a optional \<Rightarrow> error + ('a optional \<times> 'a optional)" where
  "take_rvalue trivially_move_constructible moved this =
     seq (optional_move trivially_move_constructible moved this) (\<lambda>(ret, this).
     seq (reset this) (\<lambda>this. Inr (ret, this)))"

subsection \<open>\<open>and_then\<close>\<close>

text \<open>
  The callable \<open>f\<close> may have effects: it is a function of the value and of the state
  \<open>'s\<close> it can touch, and returns its result with the new state. An \<open>f\<close> that is not
  invoked leaves every such state as it was.

  \<open>has_value() ? detail::invoke(std::forward<F>(f), **this) : result(nullopt)\<close>
\<close>

definition and_then ::
  "'a optional \<Rightarrow> ('a \<Rightarrow> 's \<Rightarrow> 'b optional \<times> 's) \<Rightarrow> 's \<Rightarrow> error + ('b optional \<times> 's)" where
  "and_then this f s =
     (if has_value this then seq (deref this) (\<lambda>v. Inr (f v s))
      else Inr (optional_nullopt, s))"

subsection \<open>\<open>map\<close>\<close>

text \<open>\<open>class monostate {}\<close>, what a void result is changed to (\<open>fixup_void\<close>).\<close>

datatype monostate = Monostate

text \<open>\<open>make_optional(U&& v)\<close>: \<open>optional<Ret>(std::forward<U>(v))\<close>.\<close>

definition make_optional :: "'a \<Rightarrow> 'a optional" where
  "make_optional v = optional_value v"

text \<open>
  \<open>detail::optional_map_impl\<close> for an \<open>f\<close> whose result is not void:
  \<open>opt.has_value() ? detail::invoke(f, *opt) : optional<Ret>(nullopt)\<close>, the result of
  \<open>f\<close> converted to \<open>optional<Ret>\<close> by the value constructor.
\<close>

definition optional_map_impl ::
  "'a optional \<Rightarrow> ('a \<Rightarrow> 's \<Rightarrow> 'b \<times> 's) \<Rightarrow> 's \<Rightarrow> error + ('b optional \<times> 's)" where
  "optional_map_impl opt f s =
     (if has_value opt then
        seq (deref opt) (\<lambda>v. case f v s of (r, s') \<Rightarrow> Inr (optional_value r, s'))
      else Inr (optional_nullopt, s))"

text \<open>
  \<open>detail::optional_map_impl\<close> for an \<open>f\<close> returning void:
  \<open>if (opt.has_value()) { detail::invoke(f, *opt); return make_optional(monostate{}); }
  return optional<monostate>(nullopt);\<close>
\<close>

definition optional_map_impl_void ::
  "'a optional \<Rightarrow> ('a \<Rightarrow> 's \<Rightarrow> 's) \<Rightarrow> 's \<Rightarrow> error + (monostate optional \<times> 's)" where
  "optional_map_impl_void opt f s =
     (if has_value opt then
        seq (deref opt) (\<lambda>v. case f v s of s' \<Rightarrow> Inr (make_optional Monostate, s'))
      else Inr (optional_nullopt, s))"

subsection \<open>The other combinators\<close>

text \<open>
  \<open>or_else(f)\<close> for an \<open>f\<close> returning void:
  \<open>if (has_value()) return *this; std::forward<F>(f)(); return nullopt;\<close>
  and for an \<open>f\<close> returning an optional: \<open>has_value() ? *this : std::forward<F>(f)()\<close>.
  Returning \<open>*this\<close> copies it.
\<close>

definition or_else_void ::
  "bool \<Rightarrow> 'a optional \<Rightarrow> ('s \<Rightarrow> 's) \<Rightarrow> 's \<Rightarrow> error + ('a optional \<times> 's)" where
  "or_else_void trivially_copy_constructible this f s =
     (if has_value this then
        seq (optional_copy trivially_copy_constructible this) (\<lambda>ret. Inr (ret, s))
      else case f s of s' \<Rightarrow> Inr (optional_nullopt, s'))"

definition or_else ::
  "bool \<Rightarrow> 'a optional \<Rightarrow> ('s \<Rightarrow> 'a optional \<times> 's) \<Rightarrow> 's \<Rightarrow> error + ('a optional \<times> 's)" where
  "or_else trivially_copy_constructible this f s =
     (if has_value this then
        seq (optional_copy trivially_copy_constructible this) (\<lambda>ret. Inr (ret, s))
      else Inr (f s))"

text \<open>\<open>map_or(f, u)\<close>: \<open>has_value() ? detail::invoke(f, **this) : std::forward<U>(u)\<close>.\<close>

definition map_or ::
  "'a optional \<Rightarrow> ('a \<Rightarrow> 's \<Rightarrow> 'b \<times> 's) \<Rightarrow> 'b \<Rightarrow> 's \<Rightarrow> error + ('b \<times> 's)" where
  "map_or this f u s =
     (if has_value this then seq (deref this) (\<lambda>v. Inr (f v s)) else Inr (u, s))"

text \<open>\<open>map_or_else(f, u)\<close>: \<open>has_value() ? detail::invoke(f, **this) : std::forward<U>(u)()\<close>.\<close>

definition map_or_else ::
  "'a optional \<Rightarrow> ('a \<Rightarrow> 's \<Rightarrow> 'b \<times> 's) \<Rightarrow> ('s \<Rightarrow> 'b \<times> 's) \<Rightarrow> 's \<Rightarrow> error + ('b \<times> 's)" where
  "map_or_else this f u s =
     (if has_value this then seq (deref this) (\<lambda>v. Inr (f v s)) else Inr (u s))"

text \<open>\<open>conjunction(u)\<close>: \<open>has_value() ? result{u} : result{nullopt}\<close>.\<close>

definition conjunction :: "'a optional \<Rightarrow> 'b \<Rightarrow> 'b optional" where
  "conjunction this u = (if has_value this then optional_value u else optional_nullopt)"

text \<open>\<open>disjunction(rhs)\<close>: \<open>has_value() ? *this : rhs\<close>, the chosen one copied.\<close>

definition disjunction :: "bool \<Rightarrow> 'a optional \<Rightarrow> 'a optional \<Rightarrow> error + 'a optional" where
  "disjunction trivially_copy_constructible this rhs =
     (if has_value this then optional_copy trivially_copy_constructible this
      else optional_copy trivially_copy_constructible rhs)"

subsection \<open>Comparison operators\<close>

text \<open>
  The operators of \<open>T\<close> are parameters: \<open>eq\<close> is \<open>T\<close>'s \<open>==\<close>, \<open>ne\<close> its \<open>!=\<close>, \<open>lt\<close>
  its \<open><\<close>. \<open>&&\<close> and \<open>||\<close> evaluate their right operand only when the left one does
  not decide.

  \<open>operator==\<close>: \<open>lhs.has_value() == rhs.has_value() && (!lhs.has_value() || *lhs == *rhs)\<close>
\<close>

definition operator_eq ::
  "('a \<Rightarrow> 'b \<Rightarrow> bool) \<Rightarrow> 'a optional \<Rightarrow> 'b optional \<Rightarrow> error + bool" where
  "operator_eq eq lhs rhs =
     (if has_value lhs = has_value rhs then
        (if \<not> has_value lhs then Inr True
         else seq (deref lhs) (\<lambda>x. seq (deref rhs) (\<lambda>y. Inr (eq x y))))
      else Inr False)"

text \<open>\<open>operator<\<close>: \<open>rhs.has_value() && (!lhs.has_value() || *lhs < *rhs)\<close>\<close>

definition operator_less ::
  "('a \<Rightarrow> 'b \<Rightarrow> bool) \<Rightarrow> 'a optional \<Rightarrow> 'b optional \<Rightarrow> error + bool" where
  "operator_less lt lhs rhs =
     (if has_value rhs then
        (if \<not> has_value lhs then Inr True
         else seq (deref lhs) (\<lambda>x. seq (deref rhs) (\<lambda>y. Inr (lt x y))))
      else Inr False)"

text \<open>
  Against \<open>nullopt\<close>: \<open>operator==(lhs, nullopt_t)\<close> is \<open>!lhs.has_value()\<close> and
  \<open>operator==(nullopt_t, rhs)\<close> is \<open>!rhs.has_value()\<close>.
\<close>

definition operator_eq_nullopt :: "'a optional \<Rightarrow> bool" where
  "operator_eq_nullopt lhs = (\<not> has_value lhs)"

definition nullopt_operator_eq :: "'a optional \<Rightarrow> bool" where
  "nullopt_operator_eq rhs = (\<not> has_value rhs)"

text \<open>
  Against a bare value: \<open>operator==(lhs, u)\<close> is \<open>lhs.has_value() ? *lhs == rhs : false\<close>,
  \<open>operator!=(lhs, u)\<close> is \<open>lhs.has_value() ? *lhs != rhs : true\<close> and
  \<open>operator<(lhs, u)\<close> is \<open>lhs.has_value() ? *lhs < rhs : true\<close>.
\<close>

definition operator_eq_value :: "('a \<Rightarrow> 'b \<Rightarrow> bool) \<Rightarrow> 'a optional \<Rightarrow> 'b \<Rightarrow> error + bool" where
  "operator_eq_value eq lhs rhs =
     (if has_value lhs then seq (deref lhs) (\<lambda>x. Inr (eq x rhs)) else Inr False)"

definition operator_ne_value :: "('a \<Rightarrow> 'b \<Rightarrow> bool) \<Rightarrow> 'a optional \<Rightarrow> 'b \<Rightarrow> error + bool" where
  "operator_ne_value ne lhs rhs =
     (if has_value lhs then seq (deref lhs) (\<lambda>x. Inr (ne x rhs)) else Inr True)"

definition operator_less_value :: "('a \<Rightarrow> 'b \<Rightarrow> bool) \<Rightarrow> 'a optional \<Rightarrow> 'b \<Rightarrow> error + bool" where
  "operator_less_value lt lhs rhs =
     (if has_value lhs then seq (deref lhs) (\<lambda>x. Inr (lt x rhs)) else Inr True)"

section \<open>The specialisation \<open>optional<T &>\<close>\<close>

text \<open>
  The only member is the pointer \<open>T *value_\<close>. An address is a natural number and the
  null pointer is \<open>None\<close>. A reference to an object is the object's address.
\<close>

type_synonym addr = nat

record optional_ref =
  value_ptr :: "addr option"

text \<open>\<open>optional()\<close> and \<open>optional(nullopt_t)\<close>: \<open>value_(nullptr)\<close>.\<close>

definition ref_nullopt :: optional_ref where
  "ref_nullopt = \<lparr>value_ptr = None\<rparr>"

text \<open>\<open>optional(U&& u)\<close> for an lvalue \<open>u\<close>: \<open>value_(std::addressof(u))\<close>.\<close>

definition ref_bind :: "addr \<Rightarrow> optional_ref" where
  "ref_bind u = \<lparr>value_ptr = Some u\<rparr>"

text \<open>\<open>has_value()\<close>: \<open>value_ != nullptr\<close>.\<close>

definition ref_has_value :: "optional_ref \<Rightarrow> bool" where
  "ref_has_value this = (value_ptr this \<noteq> None)"

text \<open>
  \<open>value()\<close>: \<open>if (has_value()) return *value_; throw bad_optional_access();\<close>
  The result is the reference returned, the address held in \<open>value_\<close>.
\<close>

definition ref_value :: "optional_ref \<Rightarrow> error + addr" where
  "ref_value this =
     (case value_ptr this of Some p \<Rightarrow> Inr p | None \<Rightarrow> Inl bad_optional_access)"

text \<open>
  \<open>value() const &\<close> of the primary template as a reference: for an optional whose
  member \<open>value_\<close> lies at address \<open>a\<close>, the address \<open>a\<close> when it has a value, and
  the exception otherwise.
\<close>

definition value_reference :: "addr \<Rightarrow> 'a optional \<Rightarrow> error + addr" where
  "value_reference a this = (if has_value this then Inr a else Inl bad_optional_access)"

text \<open>\<open>operator=(nullopt_t)\<close>: \<open>value_ = nullptr\<close>.\<close>

definition ref_assign_nullopt :: "optional_ref \<Rightarrow> optional_ref" where
  "ref_assign_nullopt this = this\<lparr>value_ptr := None\<rparr>"

text \<open>\<open>optional &operator=(const optional &rhs) = default\<close>: the pointer is copied.\<close>

definition ref_copy_assign :: "optional_ref \<Rightarrow> optional_ref \<Rightarrow> optional_ref" where
  "ref_copy_assign this rhs = this\<lparr>value_ptr := value_ptr rhs\<rparr>"

text \<open>\<open>operator=(U&& u)\<close> for an lvalue \<open>u\<close>: \<open>value_ = std::addressof(u)\<close>.\<close>

definition ref_assign_lvalue :: "optional_ref \<Rightarrow> addr \<Rightarrow> optional_ref" where
  "ref_assign_lvalue this u = this\<lparr>value_ptr := Some u\<rparr>"

text \<open>
  The converting assignment \<open>operator=(const optional<U> &rhs)\<close>, lines 2017 to 2020:
  \<open>value_ = std::addressof(rhs.value()); return *this;\<close>
  The first function is for a \<open>rhs\<close> of the reference specialisation, the second for
  a \<open>rhs\<close> of the primary template whose \<open>value_\<close> lies at address \<open>a\<close>.
\<close>

definition ref_assign_from_ref :: "optional_ref \<Rightarrow> optional_ref \<Rightarrow> error + optional_ref" where
  "ref_assign_from_ref this rhs =
     seq (ref_value rhs) (\<lambda>p. Inr (this\<lparr>value_ptr := Some p\<rparr>))"

definition ref_assign_from_optional ::
  "optional_ref \<Rightarrow> addr \<Rightarrow> 'a optional \<Rightarrow> error + optional_ref" where
  "ref_assign_from_optional this a rhs =
     seq (value_reference a rhs) (\<lambda>p. Inr (this\<lparr>value_ptr := Some p\<rparr>))"

section \<open>A held type with a moved-from state\<close>

text \<open>
  \<open>std::unique_ptr<int>\<close> as the held type: a value is the address owned, or \<open>None\<close>
  for the null pointer. Its move constructor and its move assignment leave the source
  null.
\<close>

definition moved_unique_ptr :: "addr option \<Rightarrow> addr option" where
  "moved_unique_ptr p = None"

section \<open>Properties\<close>

subsection \<open>Auxiliary facts\<close>

lemmas obs_defs = has_value_def get_def deref_def value_def

lemmas ctor_defs =
  optional_default_def optional_in_place_def optional_value_def optional_nullopt_def
  make_optional_def

lemmas prim_defs = forward_get_def assign_through_def destroy_def construct_def hard_reset_def

lemma seq_Inr [simp]: "seq (Inr x) k = k x"
  by (simp add: seq_def)

lemma seq_Inl [simp]: "seq (Inl e) k = Inl e"
  by (simp add: seq_def)

lemma seq_eq_Inl: "(seq m k = Inl e) = (m = Inl e \<or> (\<exists>x. m = Inr x \<and> k x = Inl e))"
  by (cases m) (simp_all add: seq_def)

text \<open>An optional that satisfies the invariant is empty or holds one value.\<close>

lemma invariant_cases:
  "invariant (this :: 'a optional) \<Longrightarrow>
     this = optional_default \<or> (\<exists>v. this = optional_in_place v)"
  by (cases this; cases "storage this") (auto simp: invariant_def populated_def ctor_defs)

lemma invariant_ctor:
  "invariant optional_default" "invariant optional_nullopt"
  "invariant (optional_in_place v)" "invariant (optional_value v)"
  by (simp_all add: invariant_def populated_def ctor_defs)

lemma observers_ctor:
  "has_value (optional_value v)" "\<not> has_value optional_default"
  "\<not> has_value optional_nullopt"
  "value (optional_value v) = Inr v"
  "value optional_default = Inl bad_optional_access"
  by (simp_all add: obs_defs ctor_defs)

text \<open>
  What \<open>assign\<close> does in each of the four cases. With both values present the target is
  assigned from the source and then constructed again from what the assignment left in
  the source.
\<close>

lemma assign_cases:
  "assign after optional_default optional_default =
     Inr (optional_default, optional_default :: 'a optional)"
  "assign after (optional_in_place x) optional_default =
     Inr (optional_default, optional_default :: 'a optional)"
  "assign after optional_default (optional_in_place y) =
     Inr (optional_in_place y, optional_in_place (after y))"
  "assign after (optional_in_place x) (optional_in_place y) =
     Inr (optional_in_place (after y), optional_in_place (after (after y)))"
  by (simp_all add: assign_def obs_defs ctor_defs prim_defs)

text \<open>The operations below have no path to the exception.\<close>

lemma prims_not_bad:
  "get this \<noteq> Inl bad_optional_access"
  "deref this \<noteq> Inl bad_optional_access"
  "forward_get after this \<noteq> Inl bad_optional_access"
  "destroy this \<noteq> Inl bad_optional_access"
  "assign_through this u \<noteq> Inl bad_optional_access"
  "hard_reset this \<noteq> Inl bad_optional_access"
  by (auto simp: obs_defs prim_defs seq_def split: storage.splits sum.splits)

lemma copy_not_bad:
  "optional_copy triv this \<noteq> Inl bad_optional_access"
  "optional_move trivm moved this \<noteq> Inl bad_optional_access"
  by (auto simp: optional_copy_def optional_move_def optional_copy_base_def
      optional_move_base_def seq_eq_Inl prims_not_bad split: prod.splits)

text \<open>
  A converting constructor given an empty optional reads a value that is not there.
\<close>

lemma optional_from_other_empty:
  "optional_from_other conv after optional_default = Inl undefined_behaviour"
  by (simp add: optional_from_other_def forward_get_def optional_default_def)

lemma optional_from_other_not_bad:
  "optional_from_other conv afteru rhsu \<noteq> Inl bad_optional_access"
  by (auto simp: optional_from_other_def seq_eq_Inl prims_not_bad split: prod.splits)

lemma reset_not_bad:
  "reset this \<noteq> Inl bad_optional_access"
  "assign_nullopt this \<noteq> Inl bad_optional_access"
  by (auto simp: reset_def assign_nullopt_def seq_eq_Inl prims_not_bad)

text \<open>\<open>emplace\<close> calls \<open>value()\<close>, but only after \<open>construct\<close> has set the flag.\<close>

lemma emplace_not_bad: "emplace u this \<noteq> Inl bad_optional_access"
  by (auto simp: emplace_def value_def get_def has_value_def construct_def seq_eq_Inl
      reset_not_bad)

lemma assign_not_bad:
  "assign after this rhs \<noteq> Inl bad_optional_access"
  "assign_from_other conv afteru this rhsu \<noteq> Inl bad_optional_access"
  "assign_forward this u \<noteq> Inl bad_optional_access"
  by (auto simp: assign_def assign_from_other_def assign_forward_def seq_eq_Inl prims_not_bad
      split: prod.splits if_splits)

lemma swap_take_not_bad:
  "swap this rhs \<noteq> Inl bad_optional_access"
  "take triv this \<noteq> Inl bad_optional_access"
  "take_rvalue trivm moved this \<noteq> Inl bad_optional_access"
  by (auto simp: swap_def take_def take_rvalue_def seq_eq_Inl prims_not_bad copy_not_bad
      reset_not_bad split: prod.splits)

lemma combinators_not_bad:
  "optional_map_impl this f s \<noteq> Inl bad_optional_access"
  "optional_map_impl_void this g s \<noteq> Inl bad_optional_access"
  "and_then this h s \<noteq> Inl bad_optional_access"
  "or_else triv this k s \<noteq> Inl bad_optional_access"
  "or_else_void triv this kv s \<noteq> Inl bad_optional_access"
  "map_or this f d s \<noteq> Inl bad_optional_access"
  "map_or_else this f df s \<noteq> Inl bad_optional_access"
  "disjunction triv this rhs \<noteq> Inl bad_optional_access"
  "value_or this u \<noteq> Inl bad_optional_access"
  by (auto simp: optional_map_impl_def optional_map_impl_void_def and_then_def or_else_def
      or_else_void_def map_or_def map_or_else_def disjunction_def value_or_def seq_eq_Inl
      prims_not_bad copy_not_bad split: prod.splits)

lemma comparisons_not_bad:
  "operator_eq eq this rhsb \<noteq> Inl bad_optional_access"
  "operator_less lt this rhsb \<noteq> Inl bad_optional_access"
  "operator_eq_value eq this b \<noteq> Inl bad_optional_access"
  "operator_ne_value ne this b \<noteq> Inl bad_optional_access"
  "operator_less_value lt this b \<noteq> Inl bad_optional_access"
  by (auto simp: operator_eq_def operator_less_def operator_eq_value_def
      operator_ne_value_def operator_less_value_def seq_eq_Inl prims_not_bad)

subsection \<open>Assignment from another optional\<close>

text \<open>
  C1. After \<open>a = b\<close>, copy or move: with both values present \<open>a\<close>'s value is assigned
  from \<open>b\<close>'s; with only \<open>b\<close>'s present a value is constructed in \<open>a\<close>; with only
  \<open>a\<close>'s present it is destroyed; and whenever \<open>b\<close> held a value, \<open>a\<close>'s final value
  is \<open>b\<close>'s prior value.

  The code does not do this for a move with both values present. Here \<open>a\<close> holds a
  \<open>std::unique_ptr<int>\<close> owning address 1 and \<open>b\<close> one owning address 2. After
  \<open>a = std::move(b)\<close> the optional \<open>a\<close> holds the null pointer, not the pointer to
  address 2: line 191 moves \<open>b\<close>'s value into \<open>a\<close>'s, and line 198, which no
  \<open>else\<close> keeps from running, constructs \<open>a\<close>'s value a second time from the
  moved-from \<open>b\<close>.
\<close>

theorem move_assign_both_holding_loses_value:
  "move_assign moved_unique_ptr (optional_value (Some 1)) (optional_value (Some 2)) =
     Inr (optional_value None, optional_value None) \<and>
   value (optional_value (None :: addr option)) = Inr None \<and>
   value (optional_value (Some (2 :: addr))) = Inr (Some 2)"
  by (simp add: move_assign_def assign_def obs_defs ctor_defs prim_defs moved_unique_ptr_def)

subsection \<open>\<open>value\<close> and the exception\<close>

text \<open>
  In the primary template, \<open>value()\<close> returns the held value when \<open>has_value()\<close> is
  true and raises \<open>bad_optional_access\<close> exactly when \<open>has_value()\<close> is false, and
  no other operation of the primary template raises it: not \<open>emplace\<close>, which calls
  \<open>value()\<close> after constructing, and none of the operations that never call
  \<open>value()\<close>.
\<close>

lemma value_raises_exactly_when_empty:
  "(invariant this \<and> has_value this \<longrightarrow>
      (\<exists>v. storage this = Value v \<and> value this = Inr v)) \<and>
   ((value this = Inl bad_optional_access) = (\<not> has_value this)) \<and>
   emplace u this \<noteq> Inl bad_optional_access \<and>
   deref this \<noteq> Inl bad_optional_access \<and>
   value_or this u \<noteq> Inl bad_optional_access \<and>
   reset this \<noteq> Inl bad_optional_access \<and>
   assign_nullopt this \<noteq> Inl bad_optional_access \<and>
   assign_forward this u \<noteq> Inl bad_optional_access \<and>
   assign after this rhs \<noteq> Inl bad_optional_access \<and>
   assign_from_other conv afteru this rhsu \<noteq> Inl bad_optional_access \<and>
   optional_copy triv this \<noteq> Inl bad_optional_access \<and>
   optional_move trivm moved this \<noteq> Inl bad_optional_access \<and>
   optional_from_other convb afterb rhsb \<noteq> Inl bad_optional_access \<and>
   swap this rhs \<noteq> Inl bad_optional_access \<and>
   take triv this \<noteq> Inl bad_optional_access \<and>
   take_rvalue trivm moved this \<noteq> Inl bad_optional_access \<and>
   optional_map_impl this f s \<noteq> Inl bad_optional_access \<and>
   optional_map_impl_void this g s \<noteq> Inl bad_optional_access \<and>
   and_then this h s \<noteq> Inl bad_optional_access \<and>
   or_else triv this k s \<noteq> Inl bad_optional_access \<and>
   or_else_void triv this kv s \<noteq> Inl bad_optional_access \<and>
   map_or this f d s \<noteq> Inl bad_optional_access \<and>
   map_or_else this f df s \<noteq> Inl bad_optional_access \<and>
   disjunction triv this rhs \<noteq> Inl bad_optional_access \<and>
   operator_eq eq this rhsb \<noteq> Inl bad_optional_access \<and>
   operator_less lt this rhsb \<noteq> Inl bad_optional_access \<and>
   operator_eq_value eq this b \<noteq> Inl bad_optional_access \<and>
   operator_ne_value ne this b \<noteq> Inl bad_optional_access \<and>
   operator_less_value lt this b \<noteq> Inl bad_optional_access"
proof -
  have held: "invariant this \<and> has_value this \<longrightarrow>
      (\<exists>v. storage this = Value v \<and> value this = Inr v)"
    by (cases "storage this") (auto simp: invariant_def populated_def obs_defs)
  have raises: "(value this = Inl bad_optional_access) = (\<not> has_value this)"
    by (simp add: value_def prims_not_bad)
  show ?thesis
    by (intro conjI held raises emplace_not_bad prims_not_bad combinators_not_bad
        reset_not_bad assign_not_bad copy_not_bad swap_take_not_bad comparisons_not_bad
        optional_from_other_not_bad)
qed

lemma value_raises_exactly_when_empty_witness:
  "invariant (optional_value (5 :: int)) \<and> has_value (optional_value (5 :: int)) \<and>
   value (optional_value (5 :: int)) = Inr 5 \<and>
   \<not> has_value (optional_default :: int optional) \<and>
   value (optional_default :: int optional) = Inl bad_optional_access"
  using value_raises_exactly_when_empty [where this = "optional_value (5 :: int)"]
    value_raises_exactly_when_empty [where this = "optional_default :: int optional"]
  by (auto simp: invariant_ctor observers_ctor)

text \<open>
  C2. \<open>value()\<close> returns the held value when \<open>has_value()\<close> is true and raises
  \<open>bad_optional_access\<close> exactly when \<open>has_value()\<close> is false, and no other operation
  raises this error.

  The code has a second operation that raises it. The converting assignment of the
  reference specialisation, lines 2017 to 2020, calls \<open>rhs.value()\<close> with no test.
  For \<open>int i; optional<const int &> o(i); optional<int> e; o = e;\<close>, with \<open>i\<close> at
  address 1 and \<open>e\<close>'s storage at address 3, and likewise for an empty \<open>e\<close> of the
  reference specialisation, the assignment raises \<open>bad_optional_access\<close>. Its doc
  comment says that it resets \<open>o\<close> when \<open>e\<close> is empty, which is what the copy
  assignment of the same class does.
\<close>

theorem converting_assign_of_reference_raises:
  "\<not> has_value (optional_default :: int optional) \<and>
   ref_assign_from_optional (ref_bind 1) 3 (optional_default :: int optional) =
     Inl bad_optional_access \<and>
   \<not> ref_has_value ref_nullopt \<and>
   ref_assign_from_ref (ref_bind 1) ref_nullopt = Inl bad_optional_access \<and>
   ref_copy_assign (ref_bind 1) ref_nullopt = ref_nullopt"
  by (simp add: ref_assign_from_optional_def ref_assign_from_ref_def value_reference_def
      ref_value_def ref_has_value_def ref_copy_assign_def ref_nullopt_def ref_bind_def
      has_value_def optional_default_def)

subsection \<open>\<open>take\<close>\<close>

text \<open>
  C3. For every optional \<open>opt\<close>, after \<open>auto r = opt.take();\<close> the source is empty and
  \<open>r\<close> is \<open>opt\<close>'s prior state: it holds the prior value when there was one and is
  empty otherwise. This holds for the lvalue and the rvalue overload, and for a
  trivial and a non-trivial copy or move constructor.
\<close>

theorem take_clears_source:
  "invariant opt \<Longrightarrow>
     take triv opt = Inr (opt, optional_default) \<and>
     take_rvalue trivm moved opt = Inr (opt, optional_default) \<and>
     \<not> has_value (optional_default :: 'a optional)"
  by (auto dest!: invariant_cases
      simp: take_def take_rvalue_def optional_copy_def optional_move_def optional_copy_base_def
        optional_move_base_def reset_def obs_defs ctor_defs prim_defs)

theorem take_clears_source_witness:
  "invariant (optional_value (7 :: int)) \<and>
   take False (optional_value (7 :: int)) = Inr (optional_value 7, optional_default) \<and>
   take_rvalue False (\<lambda>v. 0) (optional_value (7 :: int)) =
     Inr (optional_value 7, optional_default)"
  using take_clears_source [of "optional_value (7 :: int)" False False "\<lambda>v. 0"]
  by (auto simp: invariant_ctor)

subsection \<open>\<open>map\<close> and \<open>and_then\<close>\<close>

text \<open>
  C4. For every optional and function \<open>f\<close>: when the optional holds \<open>v\<close>, \<open>map(f)\<close> is
  an optional holding \<open>f(v)\<close>, and for a void \<open>f\<close> an optional holding \<open>monostate\<close>
  after \<open>f\<close> has run on \<open>v\<close>; when the optional is empty, \<open>map(f)\<close> is the empty
  optional and \<open>f\<close> is not invoked: the state \<open>f\<close> could change is returned unchanged.
\<close>

theorem map_applies_or_short_circuits:
  "invariant opt \<Longrightarrow>
     (has_value opt \<longrightarrow>
        (\<exists>v. value opt = Inr v \<and>
           optional_map_impl opt f s = Inr (optional_value (fst (f v s)), snd (f v s)) \<and>
           optional_map_impl_void opt g s = Inr (optional_value Monostate, g v s))) \<and>
     (\<not> has_value opt \<longrightarrow>
        optional_map_impl opt f s = Inr (optional_nullopt, s) \<and>
        optional_map_impl_void opt g s = Inr (optional_nullopt, s))"
  by (auto dest!: invariant_cases
      simp: optional_map_impl_def optional_map_impl_void_def obs_defs ctor_defs
      split: prod.splits)

theorem map_applies_or_short_circuits_witness:
  "invariant (optional_value (3 :: int)) \<and> has_value (optional_value (3 :: int)) \<and>
   optional_map_impl (optional_value (3 :: int)) (\<lambda>v n. (v + 1, Suc n)) 0 =
     Inr (optional_value 4, 1) \<and>
   invariant (optional_default :: int optional) \<and>
   \<not> has_value (optional_default :: int optional) \<and>
   optional_map_impl (optional_default :: int optional) (\<lambda>v n. (v + 1, Suc n)) 0 =
     Inr (optional_nullopt, 0)"
  using map_applies_or_short_circuits
      [of "optional_value (3 :: int)" "\<lambda>v n. (v + 1, Suc n)" 0 "\<lambda>v n. Suc n"]
    map_applies_or_short_circuits
      [of "optional_default :: int optional" "\<lambda>v n. (v + 1, Suc n)" 0 "\<lambda>v n. Suc n"]
  by (auto simp: invariant_ctor observers_ctor)

text \<open>
  C5. For every function \<open>f\<close> returning an optional and every value \<open>v\<close>,
  \<open>optional<T>(v).and_then(f)\<close> is \<open>f(v)\<close> itself, not wrapped a second time, and
  \<open>optional<T>().and_then(f)\<close> is the empty optional of \<open>f\<close>'s result type, with \<open>f\<close>
  not invoked: whatever state \<open>f\<close> could change is returned unchanged.
\<close>

theorem and_then_flattens:
  "and_then (optional_value v) f s = Inr (f v s) \<and>
   and_then optional_default f s = Inr (optional_nullopt, s) \<and>
   \<not> has_value (optional_nullopt :: 'b optional)"
  by (simp add: and_then_def obs_defs ctor_defs)

subsection \<open>\<open>swap\<close>\<close>

text \<open>
  What \<open>swap\<close> does in each of the four cases. With one value present the value
  changes place and both flags stay as they were.
\<close>

lemma swap_cases:
  "swap optional_default optional_default = Inr (optional_default, optional_default :: 'a optional)"
  "swap (optional_in_place x) (optional_in_place y) = Inr (optional_in_place y, optional_in_place x)"
  "swap (optional_in_place x) optional_default =
     Inr (\<lparr>storage = Dummy, has_value_flag = True\<rparr>, \<lparr>storage = Value x, has_value_flag = False\<rparr>)"
  "swap optional_default (optional_in_place y) =
     Inr (\<lparr>storage = Value y, has_value_flag = False\<rparr>, \<lparr>storage = Dummy, has_value_flag = True\<rparr>)"
  by (simp_all add: swap_def obs_defs ctor_defs prim_defs)

text \<open>
  C6. \<open>a.swap(b)\<close>: with both values present the values are exchanged; with exactly
  one present it is moved into the other and the holder becomes empty; with none
  present both are unchanged.

  The code does not do this with exactly one value present. For \<open>optional<int> a(5), b;\<close>
  and \<open>a.swap(b)\<close>, lines 1123 and 1124 construct the 5 in \<open>b\<close>'s storage and destroy
  \<open>a\<close>'s value, and no statement changes a flag: \<open>a.has_value()\<close> is still true and
  \<open>b.has_value()\<close> still false. Afterwards \<open>a.value()\<close> refers to a destroyed object
  and \<open>b.value()\<close> throws.
\<close>

theorem swap_one_holding_keeps_flags:
  "swap (optional_value (5 :: int)) optional_default =
     Inr (\<lparr>storage = Dummy, has_value_flag = True\<rparr>,
          \<lparr>storage = Value 5, has_value_flag = False\<rparr>) \<and>
   has_value \<lparr>storage = Dummy :: int storage, has_value_flag = True\<rparr> \<and>
   \<not> has_value \<lparr>storage = Value (5 :: int), has_value_flag = False\<rparr> \<and>
   value \<lparr>storage = Dummy :: int storage, has_value_flag = True\<rparr> = Inl undefined_behaviour \<and>
   value \<lparr>storage = Value (5 :: int), has_value_flag = False\<rparr> = Inl bad_optional_access"
  by (simp add: swap_def obs_defs ctor_defs prim_defs)

subsection \<open>Equality and ordering\<close>

text \<open>
  C7. \<open>operator==\<close> on two optionals is true if and only if both are empty or both
  hold values that \<open>T\<close>'s \<open>==\<close> finds equal; an optional is equal to \<open>nullopt\<close>, on
  either side, if and only if it is empty.
\<close>

theorem operator_eq_iff:
  "invariant a \<Longrightarrow> invariant b \<Longrightarrow>
     operator_eq eq a b =
       Inr ((\<not> has_value a \<and> \<not> has_value b) \<or>
            (\<exists>x y. value a = Inr x \<and> value b = Inr y \<and> eq x y)) \<and>
     operator_eq_nullopt a = (\<not> has_value a) \<and>
     nullopt_operator_eq a = (\<not> has_value a)"
  by (auto dest!: invariant_cases
      simp: operator_eq_def operator_eq_nullopt_def nullopt_operator_eq_def obs_defs ctor_defs)

theorem operator_eq_iff_witness:
  "invariant (optional_value (3 :: int)) \<and> invariant (optional_default :: int optional) \<and>
   operator_eq (=) (optional_value (3 :: int)) (optional_value (3 :: int)) = Inr True \<and>
   operator_eq (=) (optional_value (3 :: int)) (optional_value (4 :: int)) = Inr False \<and>
   operator_eq (=) (optional_default :: int optional) (optional_default :: int optional) = Inr True \<and>
   operator_eq (=) (optional_value (3 :: int)) (optional_default :: int optional) = Inr False \<and>
   operator_eq_nullopt (optional_default :: int optional) \<and>
   \<not> operator_eq_nullopt (optional_value (3 :: int))"
  using operator_eq_iff [of "optional_value (3 :: int)" "optional_value (3 :: int)" "(=)"]
    operator_eq_iff [of "optional_value (3 :: int)" "optional_value (4 :: int)" "(=)"]
    operator_eq_iff [of "optional_default :: int optional" "optional_default :: int optional" "(=)"]
    operator_eq_iff [of "optional_value (3 :: int)" "optional_default :: int optional" "(=)"]
  by (auto simp: invariant_ctor observers_ctor)

text \<open>
  C8. Under \<open>operator<\<close> an empty optional is less than every optional holding a
  value, whatever \<open>T\<close>'s order; an optional holding a value is never less than an
  empty one; two optionals holding values compare as \<open>T\<close>'s \<open><\<close> on the values; and an
  empty optional is less than, and not equal to, any bare value.
\<close>

theorem operator_less_empty_first:
  "invariant a \<Longrightarrow> invariant b \<Longrightarrow>
     (\<not> has_value a \<and> has_value b \<longrightarrow> operator_less lt a b = Inr True) \<and>
     (has_value a \<and> \<not> has_value b \<longrightarrow> operator_less lt a b = Inr False) \<and>
     (\<forall>x y. value a = Inr x \<and> value b = Inr y \<longrightarrow> operator_less lt a b = Inr (lt x y)) \<and>
     (\<not> has_value a \<longrightarrow>
        operator_less_value lt' a u = Inr True \<and>
        operator_eq_value eq a u = Inr False \<and>
        operator_ne_value ne a u = Inr True)"
  by (auto dest!: invariant_cases
      simp: operator_less_def operator_less_value_def operator_eq_value_def
        operator_ne_value_def obs_defs ctor_defs)

theorem operator_less_empty_first_witness:
  "invariant (optional_value (3 :: int)) \<and> invariant (optional_default :: int optional) \<and>
   operator_less (\<lambda>x y. False) (optional_default :: int optional) (optional_value (3 :: int)) = Inr True \<and>
   operator_less (\<lambda>x y. True) (optional_value (3 :: int)) (optional_default :: int optional) = Inr False \<and>
   operator_less (<) (optional_value (3 :: int)) (optional_value (4 :: int)) = Inr True \<and>
   operator_less (<) (optional_value (4 :: int)) (optional_value (3 :: int)) = Inr False \<and>
   operator_less_value (<) (optional_default :: int optional) (0 :: int) = Inr True \<and>
   operator_eq_value (=) (optional_default :: int optional) (0 :: int) = Inr False \<and>
   operator_ne_value (\<noteq>) (optional_default :: int optional) (0 :: int) = Inr True"
  using operator_less_empty_first
      [of "optional_default :: int optional" "optional_value (3 :: int)" "\<lambda>x y. False"
        "(<)" "0 :: int" "(=)" "(\<noteq>)"]
    operator_less_empty_first
      [of "optional_value (3 :: int)" "optional_default :: int optional" "\<lambda>x y. True"]
    operator_less_empty_first [of "optional_value (3 :: int)" "optional_value (4 :: int)" "(<)"]
    operator_less_empty_first [of "optional_value (4 :: int)" "optional_value (3 :: int)" "(<)"]
  by (auto simp: invariant_ctor observers_ctor)

subsection \<open>The invariant\<close>

text \<open>
  \<open>reset\<close>, the assignments, \<open>emplace\<close> and \<open>take\<close> keep the invariant.
\<close>

lemma invariant_preserved:
  "invariant this \<Longrightarrow> \<exists>this'. reset this = Inr this' \<and> invariant this'"
  "invariant this \<Longrightarrow> \<exists>this'. assign_nullopt this = Inr this' \<and> invariant this'"
  "invariant this \<Longrightarrow> \<exists>this'. assign_forward this u = Inr this' \<and> invariant this'"
  "invariant this \<Longrightarrow> \<exists>this'. emplace u this = Inr (u, this') \<and> invariant this'"
  "invariant this \<Longrightarrow> \<exists>r this'. take triv this = Inr (r, this') \<and> invariant r \<and> invariant this'"
  using invariant_cases [of this]
  by (auto simp: reset_def assign_nullopt_def assign_forward_def emplace_def take_def
      optional_copy_def optional_copy_base_def obs_defs ctor_defs prim_defs invariant_def
      populated_def)

lemma assign_preserves_invariant:
  "invariant this \<Longrightarrow> invariant rhs \<Longrightarrow>
     \<exists>this' rhs'. assign after this rhs = Inr (this', rhs') \<and> invariant this' \<and> invariant rhs'"
  by (auto dest!: invariant_cases simp: assign_cases invariant_ctor)

text \<open>
  C9. Every public operation keeps the storage populated if and only if the flag is
  true, so that only the states empty and holding are reachable by construction,
  assignment, \<open>emplace\<close>, \<open>reset\<close>, \<open>swap\<close> and \<open>take\<close>.

  \<open>swap\<close> does not keep it. From \<open>optional<int> a(5), b;\<close>, both built by the
  constructors and both within the invariant, \<open>a.swap(b)\<close> leaves \<open>a\<close> with the flag
  true over a destroyed value and \<open>b\<close> with the flag false over a live value.
\<close>

theorem swap_breaks_invariant:
  "invariant (optional_value (5 :: int)) \<and> invariant (optional_default :: int optional) \<and>
   (\<exists>a b. swap (optional_value (5 :: int)) optional_default = Inr (a, b) \<and>
      \<not> invariant a \<and> \<not> invariant b \<and> has_value a \<and> \<not> populated a)"
  by (simp add: swap_def obs_defs ctor_defs prim_defs invariant_def populated_def)

subsection \<open>Converting assignment of \<open>optional<T &>\<close>\<close>

text \<open>
  C10. The converting assignment of the reference specialisation calls \<open>rhs.value()\<close>
  without a test: when \<open>rhs\<close> is empty it raises \<open>bad_optional_access\<close> and the left
  side is not made empty; the left side is rebound exactly when \<open>rhs\<close> holds a value,
  to the referee of a \<open>rhs\<close> of the reference specialisation and to the stored value
  of a \<open>rhs\<close> of the primary template.
\<close>

theorem ref_converting_assign_raises_on_empty:
  "(\<not> ref_has_value rhs \<longrightarrow> ref_assign_from_ref this rhs = Inl bad_optional_access) \<and>
   (\<forall>p. value_ptr rhs = Some p \<longrightarrow>
      ref_assign_from_ref this rhs = Inr (this\<lparr>value_ptr := Some p\<rparr>)) \<and>
   ((\<exists>this'. ref_assign_from_ref this rhs = Inr this') = ref_has_value rhs) \<and>
   (\<not> has_value rhs' \<longrightarrow> ref_assign_from_optional this a rhs' = Inl bad_optional_access) \<and>
   (has_value rhs' \<longrightarrow>
      ref_assign_from_optional this a rhs' = Inr (this\<lparr>value_ptr := Some a\<rparr>))"
  by (auto simp: ref_assign_from_ref_def ref_assign_from_optional_def ref_value_def
      ref_has_value_def value_reference_def split: option.splits)

theorem ref_converting_assign_raises_on_empty_witness:
  "\<not> ref_has_value ref_nullopt \<and>
   ref_assign_from_ref (ref_bind 1) ref_nullopt = Inl bad_optional_access \<and>
   ref_assign_from_ref (ref_bind 1) (ref_bind 2) = Inr (ref_bind 2) \<and>
   ref_assign_from_optional (ref_bind 1) 3 (optional_default :: int optional) =
     Inl bad_optional_access \<and>
   ref_assign_from_optional (ref_bind 1) 3 (optional_value (9 :: int)) = Inr (ref_bind 3)"
  using ref_converting_assign_raises_on_empty
      [of ref_nullopt "ref_bind 1" "optional_default :: int optional" 3]
    ref_converting_assign_raises_on_empty
      [of "ref_bind 2" "ref_bind 1" "optional_value (9 :: int)" 3]
  by (auto simp: ref_has_value_def ref_nullopt_def ref_bind_def observers_ctor)

end
